theory Spec2Isabelle
  imports Main "HOL-Library.Word"
begin

section \<open>JSON documents\<close>

text \<open>
  The agent exchanges JSON with AWS IoT Jobs. The encoder and decoder
  (\<^verbatim>\<open>encoding/json\<close>) are a library outside the repository; a JSON text is
  represented by the value it denotes. A Go \<^verbatim>\<open>map[string]interface{}\<close> is an association
  list read through \<open>map_of\<close>; the nil map and the empty map are both \<open>[]\<close>
  (they differ only in their rendering, \<^verbatim>\<open>null\<close> against \<^verbatim>\<open>{}\<close>, and decode alike).
  Numbers are integers: the fields the agent decodes are all \<^verbatim>\<open>int64\<close>.
\<close>

datatype json =
    JNull
  | JBool bool
  | JNum int
  | JStr string
  | JArr "json list"
  | JObj "(string \<times> json) list"

type_synonym JobDocument = "(string \<times> json) list"
type_synonym StatusDetails = "(string \<times> json) list"
type_synonym int64 = "64 word"

text \<open>
  Decoding an object into a struct field: a key that is absent, \<^verbatim>\<open>null\<close> or of the wrong
  JSON type leaves the field at its zero value (the decoder's error is discarded at every
  call site of the agent). Keys are matched as the struct tags spell them.
\<close>

definition string_field :: "(string \<times> json) list \<Rightarrow> string \<Rightarrow> string" where
  "string_field kvs k = (case map_of kvs k of Some (JStr s) \<Rightarrow> s | _ \<Rightarrow> [])"

definition int64_field :: "(string \<times> json) list \<Rightarrow> string \<Rightarrow> int64" where
  "int64_field kvs k =
     (case map_of kvs k of
        Some (JNum n) \<Rightarrow>
          (if - (2 ^ 63) \<le> n \<and> n < 2 ^ 63 then word_of_int n else 0)
      | _ \<Rightarrow> 0)"

definition object_field :: "(string \<times> json) list \<Rightarrow> string \<Rightarrow> (string \<times> json) list" where
  "object_field kvs k = (case map_of kvs k of Some (JObj m) \<Rightarrow> m | _ \<Rightarrow> [])"

section \<open>The job status reporter (awsiotjobs.go)\<close>

subsection \<open>Data\<close>

record Config =
  Port :: int
  CaCertPath :: string
  CertificatePath :: string
  PrivateKeyPath :: string
  Endpoint :: string
  ThingName :: string
  ClientID :: string

record JobError =
  ErrCode :: string
  ErrMessage :: string

text \<open>\<^verbatim>\<open>JobError.Error\<close>: \<^verbatim>\<open>fmt.Sprintf("code %s, msg: %s", err.ErrCode, err.ErrMessage)\<close>.\<close>

definition Error :: "JobError \<Rightarrow> string" where
  "Error err = ''code '' @ ErrCode err @ '', msg: '' @ ErrMessage err"

text \<open>
  A Go \<^verbatim>\<open>error\<close> value met in the agent is either a \<^verbatim>\<open>JobError\<close> or an error of a
  collaborator (the MQTT token, the mender command), of which only the message matters.
\<close>

datatype error = JobErr JobError | OtherErr string

text \<open>The payload of a status update, as \<^verbatim>\<open>getUpdatePayload\<close> fills the map it marshals.\<close>

record update_payload =
  p_status :: string
  p_statusDetails :: StatusDetails
  p_expectedVersion :: int64
  p_executionNumber :: int64
  p_includeJobExecutionState :: bool
  p_clientToken :: string

text \<open>
  What is handed to the MQTT client as payload: a status update, the progress report of the
  mender job (\<^verbatim>\<open>{"progress": p, "ts": t}\<close>), or plain text.
\<close>

datatype payload =
    StatusUpdate update_payload
  | ProgressReport string int64
  | Text string

datatype handler = jobHandlerRef | defaultHandlerRef | updateHandlerRef

text \<open>
  The MQTT client is the interface \<^verbatim>\<open>IMqttClient\<close>; its implementation is outside the
  repository. It is represented by the requests it has received, oldest first.
\<close>

datatype mqtt_call =
    MqttPublish string "8 word" bool payload
  | MqttSubscribe string "8 word" handler
  | MqttUnsubscribe string
  | MqttConnect

type_synonym IMqttClient = "mqtt_call list"

text \<open>
  The token a publish returns: \<open>WaitTimeout\<close> is what \<^verbatim>\<open>token.WaitTimeout(publishTimeout)\<close>
  answers (the publish completed within the wait), \<open>TokenError\<close> what \<^verbatim>\<open>token.Error()\<close>
  answers. Both are decided by the transport, so a token is an input of each operation
  that publishes.
\<close>

record token =
  WaitTimeout :: bool
  TokenError :: "string option"

record Client =
  Iot :: "IMqttClient option"
  config :: Config

text \<open>
  The field \<^verbatim>\<open>client\<close> is a pointer, nil until \<^verbatim>\<open>jobHandler\<close> binds it; the mutex is
  left out, the operations being run one at a time.
\<close>

record JobExecution =
  JobID :: string
  ThingName :: string
  JobDocument :: JobDocument
  Status :: string
  StatusDetails :: StatusDetails
  QueuedAt :: int64
  StartedAt :: int64
  LastUpdatedAt :: int64
  VersionNumber :: int64
  ExecutionNumber :: int64
  client :: "Client option"

text \<open>A call either returns or panics (a nil dereference, or \<^verbatim>\<open>log.Panic\<close>).\<close>

datatype 'a outcome = Panicked | Returned 'a

subsection \<open>Topics\<close>

text \<open>\<^verbatim>\<open>fmt.Sprintf(jobBaseTopic, thingName, rest)\<close> with \<^verbatim>\<open>"$aws/things/%s/jobs/%s"\<close>.\<close>

definition jobBaseTopic :: "string \<Rightarrow> string \<Rightarrow> string" where
  "jobBaseTopic thingName rest = ''$aws/things/'' @ thingName @ ''/jobs/'' @ rest"

subsection \<open>Calls on the MQTT client\<close>

text \<open>
  \<^verbatim>\<open>client.Iot.X(...)\<close>: the request is recorded; with \<^verbatim>\<open>Iot\<close> nil the call panics.
\<close>

definition iotCall :: "mqtt_call \<Rightarrow> Client \<Rightarrow> unit outcome \<times> Client" where
  "iotCall c cl =
     (case Iot cl of
        None \<Rightarrow> (Panicked, cl)
      | Some calls \<Rightarrow> (Returned (), cl\<lparr>Iot := Some (calls @ [c])\<rparr>))"

text \<open>\<^verbatim>\<open>je.client.Iot.X(...)\<close>: panics as well when \<^verbatim>\<open>je.client\<close> is nil.\<close>

definition jeIotCall :: "(Client \<Rightarrow> mqtt_call) \<Rightarrow> JobExecution \<Rightarrow> unit outcome \<times> JobExecution" where
  "jeIotCall mk je =
     (case client je of
        None \<Rightarrow> (Panicked, je)
      | Some cl \<Rightarrow>
          (case iotCall (mk cl) cl of
             (r, cl') \<Rightarrow> (r, je\<lparr>client := Some cl'\<rparr>)))"

subsection \<open>Status updates\<close>

definition getUpdatePayload :: "JobExecution \<Rightarrow> update_payload" where
  "getUpdatePayload je =
     \<lparr> p_status = Status je,
       p_statusDetails = StatusDetails je,
       p_expectedVersion = VersionNumber je,
       p_executionNumber = ExecutionNumber je,
       p_includeJobExecutionState = True,
       p_clientToken = ''client-token'' \<rparr>"

text \<open>
  \<^verbatim>\<open>sendUpdate\<close> publishes once on \<^verbatim>\<open>.../jobs/<jobId>/update\<close> with QoS 1 and returns the
  token's error only when the token completed within the wait:
  \<^verbatim>\<open>if token.WaitTimeout(publishTimeout) && token.Error() != nil\<close>.
\<close>

definition sendUpdate :: "token \<Rightarrow> JobExecution \<Rightarrow> error option outcome \<times> JobExecution" where
  "sendUpdate tok je =
     (case jeIotCall
             (\<lambda>cl. MqttPublish
                      (jobBaseTopic (Config.ThingName (config cl)) (JobID je) @ ''/update'')
                      1 False (StatusUpdate (getUpdatePayload je))) je of
        (Panicked, je') \<Rightarrow> (Panicked, je')
      | (Returned _, je') \<Rightarrow>
          (if WaitTimeout tok \<and> TokenError tok \<noteq> None
           then (Returned (map_option OtherErr (TokenError tok)), je')
           else (Returned None, je')))"

definition subscribeToUpdates :: "JobExecution \<Rightarrow> unit outcome \<times> JobExecution" where
  "subscribeToUpdates je =
     jeIotCall
       (\<lambda>cl. MqttSubscribe
                (jobBaseTopic (Config.ThingName (config cl)) ''+/update/accepted'')
                0 updateHandlerRef) je"

definition unsubscribeFromUpdates :: "JobExecution \<Rightarrow> unit outcome \<times> JobExecution" where
  "unsubscribeFromUpdates je =
     jeIotCall
       (\<lambda>cl. MqttUnsubscribe
                (jobBaseTopic (Config.ThingName (config cl)) ''+/update/accepted'')) je"

definition InProgress ::
  "StatusDetails \<Rightarrow> token \<Rightarrow> JobExecution \<Rightarrow> error option outcome \<times> JobExecution" where
  "InProgress statusDetails tok je =
     sendUpdate tok (je\<lparr>StatusDetails := statusDetails, Status := ''IN_PROGRESS''\<rparr>)"

definition Success ::
  "StatusDetails \<Rightarrow> token \<Rightarrow> JobExecution \<Rightarrow> error option outcome \<times> JobExecution" where
  "Success statusDetails tok je =
     (case sendUpdate tok (je\<lparr>StatusDetails := statusDetails, Status := ''SUCCEEDED''\<rparr>) of
        (Panicked, je') \<Rightarrow> (Panicked, je')
      | (Returned (Some e), je') \<Rightarrow> (Returned (Some e), je')
      | (Returned None, je') \<Rightarrow>
          (case unsubscribeFromUpdates je' of
             (Panicked, je'') \<Rightarrow> (Panicked, je'')
           | (Returned _, je'') \<Rightarrow> (Returned None, je'')))"

text \<open>
  \<^verbatim>\<open>Fail\<close> and \<^verbatim>\<open>Reject\<close> store the error text as the only status detail; when the
  update fails they return the job error they were given (\<^verbatim>\<open>return err\<close>), not the
  transport's.
\<close>

definition Fail ::
  "JobError \<Rightarrow> token \<Rightarrow> JobExecution \<Rightarrow> error option outcome \<times> JobExecution" where
  "Fail err tok je =
     (case sendUpdate tok
             (je\<lparr>StatusDetails := [(''error'', JStr (Error err))], Status := ''FAILED''\<rparr>) of
        (Panicked, je') \<Rightarrow> (Panicked, je')
      | (Returned (Some e), je') \<Rightarrow> (Returned (Some (JobErr err)), je')
      | (Returned None, je') \<Rightarrow>
          (case unsubscribeFromUpdates je' of
             (Panicked, je'') \<Rightarrow> (Panicked, je'')
           | (Returned _, je'') \<Rightarrow> (Returned None, je'')))"

definition Reject ::
  "JobError \<Rightarrow> token \<Rightarrow> JobExecution \<Rightarrow> error option outcome \<times> JobExecution" where
  "Reject err tok je =
     (case sendUpdate tok
             (je\<lparr>StatusDetails := [(''error'', JStr (Error err))], Status := ''REJECTED''\<rparr>) of
        (Panicked, je') \<Rightarrow> (Panicked, je')
      | (Returned (Some e), je') \<Rightarrow> (Returned (Some (JobErr err)), je')
      | (Returned None, je') \<Rightarrow>
          (case unsubscribeFromUpdates je' of
             (Panicked, je'') \<Rightarrow> (Panicked, je'')
           | (Returned _, je'') \<Rightarrow> (Returned None, je'')))"

text \<open>\<^verbatim>\<open>Publish\<close> wraps the client's publish, not retained.\<close>

definition Publish ::
  "string \<Rightarrow> 8 word \<Rightarrow> payload \<Rightarrow> JobExecution \<Rightarrow> unit outcome \<times> JobExecution" where
  "Publish topic qos pl je = jeIotCall (\<lambda>cl. MqttPublish topic qos False pl) je"

subsection \<open>The echo of an accepted update\<close>

record executionStateType =
  es_Status :: string
  es_StatusDetails :: StatusDetails
  es_VersionNumber :: int64

record updatePayload =
  ExecutionState :: executionStateType

text \<open>
  \<^verbatim>\<open>updateHandler\<close> takes the decoded echo (a message that does not decode gives the zero
  payload) and overwrites the version number and the status details.
\<close>

definition updateHandler :: "updatePayload \<Rightarrow> JobExecution \<Rightarrow> JobExecution" where
  "updateHandler pl je =
     je\<lparr> VersionNumber := es_VersionNumber (ExecutionState pl),
         StatusDetails := es_StatusDetails (ExecutionState pl) \<rparr>"

subsection \<open>The client's subscriptions\<close>

fun iotCalls :: "mqtt_call list \<Rightarrow> Client \<Rightarrow> unit outcome \<times> Client" where
  "iotCalls [] cl = (Returned (), cl)"
| "iotCalls (c # cs) cl =
     (case iotCall c cl of
        (Panicked, cl') \<Rightarrow> (Panicked, cl')
      | (Returned _, cl') \<Rightarrow> iotCalls cs cl')"

definition subscribe :: "Client \<Rightarrow> unit outcome \<times> Client" where
  "subscribe cl =
     iotCalls
       [MqttSubscribe (jobBaseTopic (Config.ThingName (config cl)) ''notify-next'') 0 jobHandlerRef,
        MqttSubscribe (jobBaseTopic (Config.ThingName (config cl)) ''+/get/accepted'') 0 jobHandlerRef,
        MqttSubscribe (jobBaseTopic (Config.ThingName (config cl)) ''+/get/rejected'') 0 defaultHandlerRef,
        MqttSubscribe (jobBaseTopic (Config.ThingName (config cl)) ''start-next/accepted'') 0 jobHandlerRef,
        MqttSubscribe (jobBaseTopic (Config.ThingName (config cl)) ''start-next/rejected'') 0 defaultHandlerRef]
       cl"

definition unsubscribe :: "Client \<Rightarrow> unit outcome \<times> Client" where
  "unsubscribe cl =
     iotCalls
       [MqttUnsubscribe (jobBaseTopic (Config.ThingName (config cl)) ''notify-next''),
        MqttUnsubscribe (jobBaseTopic (Config.ThingName (config cl)) ''+/get/accepted''),
        MqttUnsubscribe (jobBaseTopic (Config.ThingName (config cl)) ''+/get/rejected''),
        MqttUnsubscribe (jobBaseTopic (Config.ThingName (config cl)) ''start-next/accepted''),
        MqttUnsubscribe (jobBaseTopic (Config.ThingName (config cl)) ''start-next/rejected'')]
       cl"

text \<open>
  \<^verbatim>\<open>ConnectAndSubscribe\<close>: \<^verbatim>\<open>token.Wait()\<close> waits for the connection without a bound, and
  an error of the connection panics; then the five subscriptions and the request for the
  next pending job.
\<close>

definition ConnectAndSubscribe :: "token \<Rightarrow> Client \<Rightarrow> unit outcome \<times> Client" where
  "ConnectAndSubscribe tok cl =
     (case iotCall MqttConnect cl of
        (Panicked, cl') \<Rightarrow> (Panicked, cl')
      | (Returned _, cl') \<Rightarrow>
          (if TokenError tok \<noteq> None then (Panicked, cl')
           else
             (case subscribe cl' of
                (Panicked, cl'') \<Rightarrow> (Panicked, cl'')
              | (Returned _, cl'') \<Rightarrow>
                  iotCall
                    (MqttPublish (jobBaseTopic (Config.ThingName (config cl'')) ''start-next'')
                       1 False (Text []))
                    cl'')))"

text \<open>\<^verbatim>\<open>Terminate\<close> is \<^verbatim>\<open>je.client.unsubscribe()\<close>.\<close>

definition Terminate :: "JobExecution \<Rightarrow> unit outcome \<times> JobExecution" where
  "Terminate je =
     (case client je of
        None \<Rightarrow> (Panicked, je)
      | Some cl \<Rightarrow> (case unsubscribe cl of (r, cl') \<Rightarrow> (r, je\<lparr>client := Some cl'\<rparr>)))"

subsection \<open>Incoming job messages\<close>

text \<open>
  An incoming MQTT message: its bytes, and what \<^verbatim>\<open>json.Unmarshal\<close> makes of them
  (\<open>None\<close> when they are not JSON).
\<close>

record Message =
  Topic :: string
  Payload :: string
  Decoded :: "json option"

definition zeroJobExecution :: JobExecution where
  "zeroJobExecution =
     \<lparr> JobID = [], ThingName = [], JobDocument = [], Status = [], StatusDetails = [],
       QueuedAt = 0, StartedAt = 0, LastUpdatedAt = 0, VersionNumber = 0,
       ExecutionNumber = 0, client = None \<rparr>"

definition decodeJobExecution :: "json \<Rightarrow> JobExecution" where
  "decodeJobExecution j =
     (case j of
        JObj kvs \<Rightarrow>
          \<lparr> JobID = string_field kvs ''jobId'',
            ThingName = string_field kvs ''thingName'',
            JobDocument = object_field kvs ''jobDocument'',
            Status = string_field kvs ''status'',
            StatusDetails = object_field kvs ''statusDetails'',
            QueuedAt = int64_field kvs ''queuedAt'',
            StartedAt = int64_field kvs ''startedAt'',
            LastUpdatedAt = int64_field kvs ''lastUpdatedAt'',
            VersionNumber = int64_field kvs ''versionNumber'',
            ExecutionNumber = int64_field kvs ''executionNumber'',
            client = None \<rparr>
      | _ \<Rightarrow> zeroJobExecution)"

text \<open>The message decoded into \<^verbatim>\<open>map[string]interface{}\<close>: nil unless it is an object.\<close>

definition decodeDoc :: "Message \<Rightarrow> (string \<times> json) list" where
  "decodeDoc msg = (case Decoded msg of Some (JObj kvs) \<Rightarrow> kvs | _ \<Rightarrow> [])"

definition parseJobMessage :: "Message \<Rightarrow> JobExecution \<times> JobError option" where
  "parseJobMessage msg =
     (case map_of (decodeDoc msg) ''execution'' of
        None \<Rightarrow>
          (zeroJobExecution,
           Some \<lparr> ErrCode = ''ERR_INVALID_JOB'',
                  ErrMessage = ''missing \"execution\" from payload: '' @ Payload msg \<rparr>)
      | Some execution \<Rightarrow> (decodeJobExecution execution, None))"

text \<open>
  \<^verbatim>\<open>jobHandler\<close> returns the client and, when the message is a job, the execution it hands
  to the configured handler (\<^verbatim>\<open>go job.client.config.Handler(job)\<close>); \<open>None\<close> means the
  handler is not started.
\<close>

definition jobHandler :: "Client \<Rightarrow> Message \<Rightarrow> unit outcome \<times> Client \<times> JobExecution option" where
  "jobHandler cl msg =
     (case parseJobMessage msg of
        (job, Some err) \<Rightarrow> (Returned (), cl, None)
      | (job, None) \<Rightarrow>
          (case subscribeToUpdates
                  (job\<lparr>client := Some cl, ThingName := Config.ThingName (config cl)\<rparr>) of
             (Panicked, job') \<Rightarrow> (Panicked, cl, None)
           | (Returned _, job') \<Rightarrow>
               (case client job' of
                  None \<Rightarrow> (Panicked, cl, None)
                | Some cl' \<Rightarrow> (Returned (), cl', Some job'))))"

text \<open>
  The four reports of the \<^verbatim>\<open>JobExecutioner\<close> interface that publish a status, as one
  operation.
\<close>

datatype report =
    ReportInProgress StatusDetails
  | ReportSuccess StatusDetails
  | ReportFail JobError
  | ReportReject JobError

fun perform :: "report \<Rightarrow> token \<Rightarrow> JobExecution \<Rightarrow> error option outcome \<times> JobExecution" where
  "perform (ReportInProgress d) tok je = InProgress d tok je"
| "perform (ReportSuccess d) tok je = Success d tok je"
| "perform (ReportFail err) tok je = Fail err tok je"
| "perform (ReportReject err) tok je = Reject err tok je"

subsection \<open>What the MQTT client of a record has received\<close>

definition requests :: "JobExecution \<Rightarrow> mqtt_call list" where
  "requests je =
     (case client je of None \<Rightarrow> [] | Some cl \<Rightarrow> (case Iot cl of None \<Rightarrow> [] | Some cs \<Rightarrow> cs))"

fun isPublish :: "mqtt_call \<Rightarrow> bool" where
  "isPublish (MqttPublish t q r p) = True"
| "isPublish _ = False"

fun isStatusPublish :: "mqtt_call \<Rightarrow> bool" where
  "isStatusPublish (MqttPublish t q r (StatusUpdate p)) = True"
| "isStatusPublish _ = False"

definition statusPublishes :: "JobExecution \<Rightarrow> mqtt_call list" where
  "statusPublishes je = filter isStatusPublish (requests je)"

fun expectedVersionOf :: "mqtt_call \<Rightarrow> int64 option" where
  "expectedVersionOf (MqttPublish t q r (StatusUpdate p)) = Some (p_expectedVersion p)"
| "expectedVersionOf _ = None"

text \<open>The \<^verbatim>\<open>expectedVersion\<close> of every status update published so far, oldest first.\<close>

definition expectedVersions :: "JobExecution \<Rightarrow> int64 list" where
  "expectedVersions je = List.map_filter expectedVersionOf (requests je)"

section \<open>The mender job (mender/mender.go)\<close>

subsection \<open>Data\<close>

record State =
  Step :: string

text \<open>
  The job sees its execution through the interface \<^verbatim>\<open>JobExecutioner\<close> only: the answers of
  the four getters are the fields below. The other methods are calls the job makes; they are
  recorded in the order they happen, together with the calls on the \<^verbatim>\<open>Commander\<close> and the
  reboot command. What \<^verbatim>\<open>InProgress\<close>, \<^verbatim>\<open>Success\<close>, \<^verbatim>\<open>Fail\<close> and \<^verbatim>\<open>Reject\<close>
  return is only logged by the job and decides nothing.
\<close>

record JobExecutioner =
  GetJobDocument :: JobDocument
  GetStatusDetails :: StatusDetails
  GetThingName :: string
  GetJobID :: string

record Job =
  Operation :: string
  URL :: string
  menderState :: State
  execution :: JobExecutioner

datatype call =
    CallInProgress StatusDetails
  | CallSuccess StatusDetails
  | CallFail JobError
  | CallReject JobError
  | CallTerminate
  | CallPublish string "8 word" payload
  | CallInstall string
  | CallCommit
  | CallRollback
  | CallShutdown

text \<open>
  \<^verbatim>\<open>Install\<close> runs in a goroutine and talks to the job over two unbuffered channels: lines
  on \<^verbatim>\<open>ch\<close>, one result on \<^verbatim>\<open>done\<close>. What it sends is a list of events, each with the
  time (in nanoseconds, as \<^verbatim>\<open>time.Duration\<close>) between the moment the job starts waiting
  in its \<^verbatim>\<open>select\<close> and the moment the event is offered. A list that ends without a
  \<open>Done\<close> is an installation that stays silent from then on.
\<close>

datatype install_event =
    ProgressLine nat string
  | Done nat "string option"

text \<open>The \<^verbatim>\<open>Commander\<close>: what its three methods do when called (an error is its message).\<close>

record Commander =
  InstallEvents :: "install_event list"
  CommitResult :: "string option"
  RollbackResult :: "string option"

text \<open>
  The surroundings of a job: the commander, the outcome of \<^verbatim>\<open>shutdown -r now\<close>, and
  \<^verbatim>\<open>time.Now().Unix()\<close> as a function of the number of calls made so far.
\<close>

record env =
  cmd :: Commander
  ShutdownResult :: "string option"
  clock :: "nat \<Rightarrow> int64"

record session =
  job :: Job
  calls :: "call list"

definition Second :: int where
  "Second = 1000000000"

definition Minute :: int where
  "Minute = 60 * Second"

definition timeout :: int where
  "timeout = 10 * Minute"

subsection \<open>Reports\<close>

definition called :: "call \<Rightarrow> session \<Rightarrow> session" where
  "called c s = s\<lparr>calls := calls s @ [c]\<rparr>"

definition progress :: "string \<Rightarrow> session \<Rightarrow> session" where
  "progress step s =
     called (CallInProgress [(''step'', JStr step)])
       (s\<lparr>job := (job s)\<lparr>menderState := \<lparr>Step = step\<rparr>\<rparr>\<rparr>)"

definition success :: "string \<Rightarrow> session \<Rightarrow> session" where
  "success step s =
     called (CallSuccess [(''step'', JStr step)])
       (s\<lparr>job := (job s)\<lparr>menderState := \<lparr>Step = step\<rparr>\<rparr>\<rparr>)"

definition fail :: "JobError \<Rightarrow> session \<Rightarrow> session" where
  "fail err s = called (CallFail err) s"

definition reject :: "JobError \<Rightarrow> session \<Rightarrow> session" where
  "reject err s = called (CallReject err) s"

text \<open>\<^verbatim>\<open>reportProgress\<close> publishes on the monitoring topic with QoS 0.\<close>

definition reportProgress :: "env \<Rightarrow> string \<Rightarrow> session \<Rightarrow> session" where
  "reportProgress e p s =
     called
       (CallPublish
          (''mender/'' @ GetThingName (execution (job s)) @ ''/job/'' @
             GetJobID (execution (job s)) @ ''/progress'')
          0 (ProgressReport p (clock e (length (calls s)))))
       s"

subsection \<open>Executing a job\<close>

text \<open>
  The goroutine started after a successful installation, run to its end: the reboot command,
  then \<^verbatim>\<open>Fail\<close> when the command failed and \<^verbatim>\<open>Terminate\<close> otherwise.
\<close>

definition reboot :: "env \<Rightarrow> session \<Rightarrow> session" where
  "reboot e s =
     (case ShutdownResult e of
        Some msg \<Rightarrow>
          fail \<lparr>ErrCode = ''ERROR_UNABLE_TO_REBOOT'', ErrMessage = msg\<rparr> (called CallShutdown s)
      | None \<Rightarrow> called CallTerminate (called CallShutdown s))"

text \<open>The branch \<^verbatim>\<open>case <-time.After(timeout)\<close>.\<close>

definition onTimeout :: "session \<Rightarrow> error option \<times> session" where
  "onTimeout s =
     (Some (JobErr \<lparr>ErrCode = ''ERR_MENDER_INSTALL_TIMEOUT'', ErrMessage = ''mender timed out''\<rparr>),
      fail \<lparr>ErrCode = ''ERR_MENDER_INSTALL_TIMEOUT'', ErrMessage = ''mender timed out''\<rparr> s)"

text \<open>The branch \<^verbatim>\<open>case err := <-done\<close>.\<close>

definition onDone :: "env \<Rightarrow> string option \<Rightarrow> session \<Rightarrow> error option \<times> session" where
  "onDone e err s =
     (case err of
        Some msg \<Rightarrow>
          (Some (JobErr \<lparr>ErrCode = ''ERR_MENDER_INSTALL_FAILED'', ErrMessage = msg\<rparr>),
           fail \<lparr>ErrCode = ''ERR_MENDER_INSTALL_FAILED'', ErrMessage = msg\<rparr> s)
      | None \<Rightarrow> (None, reboot e (progress ''rebooting'' s)))"

text \<open>
  The \<^verbatim>\<open>for { select { ... } }\<close> loop. \<^verbatim>\<open>time.After(timeout)\<close> is evaluated anew each time
  the loop enters the \<^verbatim>\<open>select\<close>, so every wait has its own timer: an event offered before
  the timer fires is received, otherwise the timer's branch runs (the timer wins a tie).
  Each of the two returning branches leaves the loop, so whatever the installation sends
  afterwards is never received.
\<close>

fun installLoop :: "env \<Rightarrow> int \<Rightarrow> install_event list \<Rightarrow> session \<Rightarrow> error option \<times> session" where
  "installLoop e t [] s = onTimeout s"
| "installLoop e t (ProgressLine d p # evs) s =
     (if int d < t then installLoop e t evs (reportProgress e p s) else onTimeout s)"
| "installLoop e t (Done d err # evs) s =
     (if int d < t then onDone e err s else onTimeout s)"

definition exec :: "env \<Rightarrow> int \<Rightarrow> session \<Rightarrow> error option \<times> session" where
  "exec e t s =
     (if Operation (job s) = ''mender_install'' then
        (if Step (menderState (job s)) = ''rebooting'' then
           (case CommitResult (cmd e) of
              Some msg \<Rightarrow>
                (Some (JobErr \<lparr>ErrCode = ''ERR_MENDER_COMMIT'', ErrMessage = ''error committing''\<rparr>),
                 fail \<lparr>ErrCode = ''ERR_MENDER_COMMIT'', ErrMessage = ''error committing''\<rparr>
                   (called CallCommit (reportProgress e ''rebooted'' s)))
            | None \<Rightarrow>
                (None, success ''committed'' (called CallCommit (reportProgress e ''rebooted'' s))))
         else
           installLoop e t (InstallEvents (cmd e))
             (called (CallInstall (URL (job s))) (progress ''installing'' s)))
      else if Operation (job s) = ''mender_rollback'' then
        (case RollbackResult (cmd e) of
           Some msg \<Rightarrow>
             (Some (OtherErr msg),
              fail \<lparr>ErrCode = ''ERR_MENDER_ROLLBACK_FAIL'', ErrMessage = ''unable to run rollback''\<rparr>
                (called CallRollback s))
         | None \<Rightarrow> (None, success ''rolled_back'' (called CallRollback s)))
      else (None, s))"

subsection \<open>Decoding and dispatching a job\<close>

text \<open>The \<^verbatim>\<open>switch job.Operation\<close> of \<^verbatim>\<open>parseJobDocument\<close>.\<close>

definition validate :: "Job \<Rightarrow> JobError option" where
  "validate j =
     (if Operation j = ''mender_install'' then
        (if length (URL j) = 0
         then Some \<lparr>ErrCode = ''ERR_MENDER_MISSING_URL'', ErrMessage = ''missing url parameter''\<rparr>
         else None)
      else if Operation j = ''mender_rollback'' then None
      else Some \<lparr>ErrCode = ''ERR_JOB_INVALID_OPERATION'',
                  ErrMessage = ''unrecognized or missing operation''\<rparr>)"

definition parseJobDocument :: "JobExecutioner \<Rightarrow> Job \<times> JobError option" where
  "parseJobDocument jobExecution =
     (let j = \<lparr> Operation = string_field (GetJobDocument jobExecution) ''operation'',
                URL = string_field (GetJobDocument jobExecution) ''url'',
                menderState = \<lparr>Step = []\<rparr>,
                execution = jobExecution \<rparr>
      in case validate j of
           Some err \<Rightarrow> (j, Some err)
         | None \<Rightarrow>
             (j\<lparr>menderState := \<lparr>Step = string_field (GetStatusDetails jobExecution) ''step''\<rparr>\<rparr>,
              None))"

text \<open>
  \<^verbatim>\<open>Process\<close> returns the calls it causes, the goroutine of \<^verbatim>\<open>exec\<close> included.
  \<^verbatim>\<open>parseJobDocument\<close> returns job errors only, so the type assertion always holds. In the
  \<^verbatim>\<open>switch jobError.ErrCode\<close> the case \<^verbatim>\<open>"ERR_MENDER_MISSING_URL"\<close> has an empty body, and
  a Go case does not fall through to the next one.
\<close>

definition Process :: "env \<Rightarrow> JobExecutioner \<Rightarrow> call list" where
  "Process e jobExecution =
     (case parseJobDocument jobExecution of
        (j, Some jobError) \<Rightarrow>
          (if ErrCode jobError = ''ERR_MENDER_MISSING_URL'' then []
           else if ErrCode jobError = ''ERR_JOB_INVALID_OPERATION''
           then calls (reject jobError \<lparr>job = j, calls = []\<rparr>)
           else [])
      | (j, None) \<Rightarrow> calls (snd (exec e timeout \<lparr>job = j, calls = []\<rparr>)))"

subsection \<open>What a job has called\<close>

definition execCalls :: "env \<Rightarrow> int \<Rightarrow> Job \<Rightarrow> call list" where
  "execCalls e t j = calls (snd (exec e t \<lparr>job = j, calls = []\<rparr>))"

fun isUpdaterCall :: "call \<Rightarrow> bool" where
  "isUpdaterCall (CallInstall u) = True"
| "isUpdaterCall CallCommit = True"
| "isUpdaterCall CallRollback = True"
| "isUpdaterCall _ = False"

fun isStatusReport :: "call \<Rightarrow> bool" where
  "isStatusReport (CallInProgress d) = True"
| "isStatusReport (CallSuccess d) = True"
| "isStatusReport (CallFail err) = True"
| "isStatusReport (CallReject err) = True"
| "isStatusReport _ = False"

subsection \<open>Timing of an installation\<close>

fun isProgressLine :: "install_event \<Rightarrow> bool" where
  "isProgressLine (ProgressLine d p) = True"
| "isProgressLine (Done d r) = False"

fun arrivesBefore :: "int \<Rightarrow> install_event \<Rightarrow> bool" where
  "arrivesBefore t (ProgressLine d p) = (int d < t)"
| "arrivesBefore t (Done d r) = (int d < t)"

text \<open>Nothing arrives within \<open>t\<close> of the next wait: no event is left, or the next one is late.\<close>

definition silentFrom :: "int \<Rightarrow> install_event list \<Rightarrow> bool" where
  "silentFrom t rest = (case rest of [] \<Rightarrow> True | ev # evs \<Rightarrow> \<not> arrivesBefore t ev)"

text \<open>
  When the installation hands over its result, counted from the start of the first wait
  (the job takes no time between two waits); \<open>None\<close> when it never does.
\<close>

fun completionTime :: "install_event list \<Rightarrow> nat option" where
  "completionTime [] = None"
| "completionTime (ProgressLine d p # evs) = map_option ((+) d) (completionTime evs)"
| "completionTime (Done d r # evs) = Some d"

section \<open>Sample inputs\<close>

definition exampleConfig :: Config where
  "exampleConfig =
     \<lparr> Port = 8883, CaCertPath = ''rootCA.pem'', CertificatePath = ''cert.pem'',
       PrivateKeyPath = ''private.key'', Endpoint = ''ep'', ThingName = ''rpi'',
       ClientID = ''rpi'' \<rparr>"

definition exampleClient :: Client where
  "exampleClient = \<lparr> Iot = Some [], config = exampleConfig \<rparr>"

text \<open>A job redelivered after the reboot, bound to a client that has subscribed to the echoes.\<close>

definition exampleExecution :: JobExecution where
  "exampleExecution =
     \<lparr> JobID = ''j1'', ThingName = ''rpi'',
       JobDocument =
         [(''operation'', JStr ''mender_install''), (''url'', JStr ''https://x/fw.pkg'')],
       Status = ''IN_PROGRESS'', StatusDetails = [(''step'', JStr ''rebooting'')],
       QueuedAt = 1573560519, StartedAt = 1573560656, LastUpdatedAt = 1573560656,
       VersionNumber = 2, ExecutionNumber = 1,
       client =
         Some \<lparr> Iot = Some [MqttSubscribe ''$aws/things/rpi/jobs/+/update/accepted'' 0
                               updateHandlerRef],
                config = exampleConfig \<rparr> \<rparr>"

definition ackToken :: token where
  "ackToken = \<lparr> WaitTimeout = True, TokenError = None \<rparr>"

text \<open>A publish that is not acknowledged within the wait.\<close>

definition lateToken :: token where
  "lateToken = \<lparr> WaitTimeout = False, TokenError = None \<rparr>"

definition exampleEcho :: updatePayload where
  "exampleEcho =
     \<lparr> ExecutionState =
         \<lparr> es_Status = ''IN_PROGRESS'', es_StatusDetails = [(''step'', JStr ''installing'')],
           es_VersionNumber = 3 \<rparr> \<rparr>"

definition exampleNonJob :: Message where
  "exampleNonJob =
     \<lparr> Topic = ''$aws/things/rpi/jobs/notify-next'',
       Payload = ''{\"timestamp\":1573561673}'',
       Decoded = Some (JObj [(''timestamp'', JNum 1573561673)]) \<rparr>"

definition exampleExecutioner :: "JobDocument \<Rightarrow> StatusDetails \<Rightarrow> JobExecutioner" where
  "exampleExecutioner doc details =
     \<lparr> GetJobDocument = doc, GetStatusDetails = details,
       GetThingName = ''rpi'', GetJobID = ''j1'' \<rparr>"

definition exampleEnv :: "install_event list \<Rightarrow> env" where
  "exampleEnv evs =
     \<lparr> cmd = \<lparr> InstallEvents = evs, CommitResult = None, RollbackResult = None \<rparr>,
       ShutdownResult = None, clock = (\<lambda>n. 1574763274) \<rparr>"

definition failingCommitEnv :: env where
  "failingCommitEnv =
     \<lparr> cmd = \<lparr> InstallEvents = [], CommitResult = Some ''commit error'',
               RollbackResult = Some ''rollback error'' \<rparr>,
       ShutdownResult = None, clock = (\<lambda>n. 1574763274) \<rparr>"

text \<open>An install job as \<^verbatim>\<open>parseJobDocument\<close> yields it, with the given persisted step.\<close>

definition exampleJob :: "string \<Rightarrow> Job" where
  "exampleJob step =
     \<lparr> Operation = ''mender_install'', URL = ''https://x/fw.pkg'',
       menderState = \<lparr>Step = step\<rparr>,
       execution = exampleExecutioner
         [(''operation'', JStr ''mender_install''), (''url'', JStr ''https://x/fw.pkg'')]
         (if step = [] then [] else [(''step'', JStr step)]) \<rparr>"

text \<open>
  An installation that prints a line after six minutes and succeeds six minutes later, and
  one that prints a line after a second and hands over its result fifteen minutes later.
\<close>

definition slowInstall :: "install_event list" where
  "slowInstall = [ProgressLine 360000000000 ''50%'', Done 360000000000 None]"

definition hangingInstall :: "install_event list" where
  "hangingInstall = [ProgressLine 1000000000 ''5%'', Done 900000000000 None]"

section \<open>Properties of the reporter\<close>

lemma jeIotCall_bound:
  "client je = Some cl \<Longrightarrow> Iot cl = Some cs \<Longrightarrow>
   jeIotCall mk je = (Returned (), je\<lparr>client := Some (cl\<lparr>Iot := Some (cs @ [mk cl])\<rparr>)\<rparr>)"
  by (simp add: jeIotCall_def iotCall_def)

lemma sendUpdate_bound:
  "client je = Some cl \<Longrightarrow> Iot cl = Some cs \<Longrightarrow>
   sendUpdate tok je =
     (Returned (if WaitTimeout tok then map_option OtherErr (TokenError tok) else None),
      je\<lparr>client := Some (cl\<lparr>Iot := Some (cs @
        [MqttPublish (jobBaseTopic (Config.ThingName (config cl)) (JobID je) @ ''/update'')
           1 False (StatusUpdate (getUpdatePayload je))])\<rparr>)\<rparr>)"
  by (auto simp add: sendUpdate_def jeIotCall_bound)

lemma unsubscribeFromUpdates_bound:
  "client je = Some cl \<Longrightarrow> Iot cl = Some cs \<Longrightarrow>
   unsubscribeFromUpdates je =
     (Returned (), je\<lparr>client := Some (cl\<lparr>Iot := Some (cs @
        [MqttUnsubscribe (jobBaseTopic (Config.ThingName (config cl)) ''+/update/accepted'')])\<rparr>)\<rparr>)"
  by (simp add: unsubscribeFromUpdates_def jeIotCall_bound)

lemma unsubscribe_bound:
  assumes "Iot cl = Some cs"
  shows "unsubscribe cl =
     (Returned (),
      cl\<lparr>Iot := Some (cs @
        [MqttUnsubscribe (jobBaseTopic (Config.ThingName (config cl)) ''notify-next''),
         MqttUnsubscribe (jobBaseTopic (Config.ThingName (config cl)) ''+/get/accepted''),
         MqttUnsubscribe (jobBaseTopic (Config.ThingName (config cl)) ''+/get/rejected''),
         MqttUnsubscribe (jobBaseTopic (Config.ThingName (config cl)) ''start-next/accepted''),
         MqttUnsubscribe (jobBaseTopic (Config.ThingName (config cl)) ''start-next/rejected'')])\<rparr>)"
  using assms by (simp add: unsubscribe_def iotCall_def)

lemma exampleExecution_client:
  "client exampleExecution =
     Some \<lparr> Iot = Some [MqttSubscribe ''$aws/things/rpi/jobs/+/update/accepted'' 0
                           updateHandlerRef],
            config = exampleConfig \<rparr>"
  by (simp add: exampleExecution_def)

lemma exampleExecution_Iot:
  "Iot \<lparr> Iot = Some [MqttSubscribe ''$aws/things/rpi/jobs/+/update/accepted'' 0
                      updateHandlerRef],
         config = exampleConfig \<rparr> =
     Some [MqttSubscribe ''$aws/things/rpi/jobs/+/update/accepted'' 0 updateHandlerRef]"
  by simp

lemma Success_statusPublishes:
  assumes "client je = Some cl" and "Iot cl = Some cs"
  shows "statusPublishes (snd (Success d tok je)) =
     statusPublishes je @
       [MqttPublish (jobBaseTopic (Config.ThingName (config cl)) (JobID je) @ ''/update'') 1 False
          (StatusUpdate (getUpdatePayload (je\<lparr>StatusDetails := d, Status := ''SUCCEEDED''\<rparr>)))]"
  using assms
  by (simp add: Success_def sendUpdate_bound unsubscribeFromUpdates_bound statusPublishes_def
        requests_def split: option.splits)

lemma Fail_statusPublishes:
  assumes "client je = Some cl" and "Iot cl = Some cs"
  shows "statusPublishes (snd (Fail err tok je)) =
     statusPublishes je @
       [MqttPublish (jobBaseTopic (Config.ThingName (config cl)) (JobID je) @ ''/update'') 1 False
          (StatusUpdate (getUpdatePayload
             (je\<lparr>StatusDetails := [(''error'', JStr (Error err))], Status := ''FAILED''\<rparr>)))]"
  using assms
  by (simp add: Fail_def sendUpdate_bound unsubscribeFromUpdates_bound statusPublishes_def
        requests_def split: option.splits)

lemma Reject_statusPublishes:
  assumes "client je = Some cl" and "Iot cl = Some cs"
  shows "statusPublishes (snd (Reject err tok je)) =
     statusPublishes je @
       [MqttPublish (jobBaseTopic (Config.ThingName (config cl)) (JobID je) @ ''/update'') 1 False
          (StatusUpdate (getUpdatePayload
             (je\<lparr>StatusDetails := [(''error'', JStr (Error err))], Status := ''REJECTED''\<rparr>)))]"
  using assms
  by (simp add: Reject_def sendUpdate_bound unsubscribeFromUpdates_bound statusPublishes_def
        requests_def split: option.splits)

lemma map_filter_append:
  "List.map_filter f (xs @ ys) = List.map_filter f xs @ List.map_filter f ys"
  by (simp add: List.map_filter_def)

lemma perform_expectedVersions:
  assumes "client je = Some cl" and "Iot cl = Some cs"
  shows "expectedVersions (snd (perform r tok je)) = expectedVersions je @ [VersionNumber je]"
  using assms
  by (cases r)
     (simp_all add: InProgress_def Success_def Fail_def Reject_def sendUpdate_bound
        unsubscribeFromUpdates_bound expectedVersions_def requests_def map_filter_append
        map_filter_simps getUpdatePayload_def split: option.splits)

lemma perform_bound:
  assumes "client je = Some cl" and "Iot cl = Some cs"
  shows "\<exists>cl' cs'. client (snd (perform r tok je)) = Some cl' \<and> Iot cl' = Some cs'"
  using assms
  by (cases r)
     (auto simp add: InProgress_def Success_def Fail_def Reject_def sendUpdate_bound
        unsubscribeFromUpdates_bound split: option.splits)

lemma updateHandler_client: "client (updateHandler pl je) = client je"
  by (simp add: updateHandler_def)

lemma updateHandler_expectedVersions:
  "expectedVersions (updateHandler pl je) = expectedVersions je"
  by (simp add: updateHandler_def expectedVersions_def requests_def)

lemma updateHandler_VersionNumber:
  "VersionNumber (updateHandler pl je) = es_VersionNumber (ExecutionState pl)"
  by (simp add: updateHandler_def)

text \<open>A message that carries an execution does start the handler, on a connected client.\<close>

lemma jobHandler_starts_job:
  assumes "map_of (decodeDoc msg) ''execution'' = Some ex" and "Iot cl = Some cs"
  shows "\<exists>cl' j. jobHandler cl msg = (Returned (), cl', Some j)"
  using assms
  by (simp add: jobHandler_def parseJobMessage_def subscribeToUpdates_def jeIotCall_def
        iotCall_def)

section \<open>Properties of the mender job\<close>

lemma calls_called: "calls (called c s) = calls s @ [c]"
  by (simp add: called_def)

lemma calls_progress:
  "calls (progress step s) = calls s @ [CallInProgress [(''step'', JStr step)]]"
  by (simp add: progress_def called_def)

lemma calls_success:
  "calls (success step s) = calls s @ [CallSuccess [(''step'', JStr step)]]"
  by (simp add: success_def called_def)

lemma calls_fail: "calls (fail err s) = calls s @ [CallFail err]"
  by (simp add: fail_def called_def)

lemma calls_reportProgress:
  "calls (reportProgress e p s) = calls s @
     [CallPublish (''mender/'' @ GetThingName (execution (job s)) @ ''/job/'' @
                     GetJobID (execution (job s)) @ ''/progress'')
        0 (ProgressReport p (clock e (length (calls s))))]"
  by (simp add: reportProgress_def called_def)

lemma calls_reboot:
  "calls (reboot e s) = calls s @
     (case ShutdownResult e of
        Some msg \<Rightarrow>
          [CallShutdown, CallFail \<lparr>ErrCode = ''ERROR_UNABLE_TO_REBOOT'', ErrMessage = msg\<rparr>]
      | None \<Rightarrow> [CallShutdown, CallTerminate])"
  by (simp add: reboot_def calls_fail calls_called split: option.splits)

lemma calls_onTimeout:
  "calls (snd (onTimeout s)) = calls s @
     [CallFail \<lparr>ErrCode = ''ERR_MENDER_INSTALL_TIMEOUT'', ErrMessage = ''mender timed out''\<rparr>]"
  by (simp add: onTimeout_def calls_fail)

lemma updaterCalls_onDone:
  "filter isUpdaterCall (calls (snd (onDone e err s))) = filter isUpdaterCall (calls s)"
  by (simp add: onDone_def calls_fail calls_reboot calls_progress split: option.splits)

text \<open>The loop itself calls no method of the updater.\<close>

lemma updaterCalls_installLoop:
  "filter isUpdaterCall (calls (snd (installLoop e t evs s))) = filter isUpdaterCall (calls s)"
proof (induction evs arbitrary: s)
  case Nil
  show ?case by (simp add: calls_onTimeout)
next
  case (Cons ev evs)
  show ?case
  proof (cases ev)
    case (ProgressLine d p)
    then show ?thesis
      using Cons.IH[of "reportProgress e p s"]
      by (simp add: calls_onTimeout calls_reportProgress)
  next
    case (Done d r)
    then show ?thesis
      by (simp add: calls_onTimeout updaterCalls_onDone)
  qed
qed

lemma exec_rebooting_updaterCalls:
  assumes "Operation j = ''mender_install''" and "Step (menderState j) = ''rebooting''"
  shows "filter isUpdaterCall (execCalls e t j) = [CallCommit]"
  using assms
  by (simp add: execCalls_def exec_def calls_fail calls_success calls_called calls_reportProgress
        split: option.splits)

lemma exec_install_updaterCalls:
  assumes "Operation j = ''mender_install''" and "Step (menderState j) \<noteq> ''rebooting''"
  shows "filter isUpdaterCall (execCalls e t j) = [CallInstall (URL j)]"
  using assms
  by (simp add: execCalls_def exec_def updaterCalls_installLoop calls_called calls_progress
        progress_def called_def)

lemma installLoop_silent:
  assumes "silentFrom t rest"
  shows "installLoop e t rest s = onTimeout s"
proof (cases rest)
  case Nil
  then show ?thesis by simp
next
  case (Cons ev evs)
  then show ?thesis using assms by (cases ev) (simp_all add: silentFrom_def)
qed

text \<open>
  Lines that each arrive in time, followed by a wait in which nothing arrives in time: the
  loop ends in the timer's branch, with one more status report, the failure.
\<close>

lemma installLoop_progress_then_silent:
  assumes "list_all (\<lambda>ev. isProgressLine ev \<and> arrivesBefore t ev) pre" and "silentFrom t rest"
  shows "fst (installLoop e t (pre @ rest) s) =
           Some (JobErr \<lparr>ErrCode = ''ERR_MENDER_INSTALL_TIMEOUT'', ErrMessage = ''mender timed out''\<rparr>)
       \<and> filter isStatusReport (calls (snd (installLoop e t (pre @ rest) s))) =
           filter isStatusReport (calls s) @
           [CallFail \<lparr>ErrCode = ''ERR_MENDER_INSTALL_TIMEOUT'', ErrMessage = ''mender timed out''\<rparr>]"
  using assms(1)
proof (induction pre arbitrary: s)
  case Nil
  show ?case
    by (simp add: installLoop_silent[OF assms(2)] calls_onTimeout) (simp add: onTimeout_def)
next
  case (Cons ev pre)
  from Cons.prems obtain d p where ev: "ev = ProgressLine d p" and d: "int d < t"
    by (cases ev) simp_all
  from Cons.prems have pre: "list_all (\<lambda>ev. isProgressLine ev \<and> arrivesBefore t ev) pre"
    by simp
  show ?case
    using Cons.IH[OF pre, of "reportProgress e p s"] ev d
    by (simp add: calls_reportProgress)
qed

text \<open>An unknown operation is rejected, once.\<close>

lemma Process_unknown_operation_rejects:
  "Process e (exampleExecutioner [(''operation'', JStr ''mender_installl'')] []) =
     [CallReject \<lparr>ErrCode = ''ERR_JOB_INVALID_OPERATION'',
                  ErrMessage = ''unrecognized or missing operation''\<rparr>]"
  by (simp add: Process_def parseJobDocument_def validate_def string_field_def
        exampleExecutioner_def reject_def called_def)

section \<open>The claims\<close>

subsection \<open>C1: an install job without a url\<close>

text \<open>
  Claim C1, evaluated on the code. For the job document \<^verbatim>\<open>{"operation": "mender_install"}\<close>,
  without a url or with an empty one, \<^verbatim>\<open>parseJobDocument\<close> answers the error
  \<^verbatim>\<open>ERR_MENDER_MISSING_URL\<close> and \<^verbatim>\<open>Process\<close> then makes no call at all: no method
  of the updater, and no \<^verbatim>\<open>Reject\<close> either, whatever the surroundings.
\<close>

theorem Process_missing_url_skips_Reject:
  "snd (parseJobDocument (exampleExecutioner [(''operation'', JStr ''mender_install'')] [])) =
     Some \<lparr>ErrCode = ''ERR_MENDER_MISSING_URL'', ErrMessage = ''missing url parameter''\<rparr>
   \<and> Process e (exampleExecutioner [(''operation'', JStr ''mender_install'')] []) = []
   \<and> Process e (exampleExecutioner
         [(''operation'', JStr ''mender_install''), (''url'', JStr [])] []) = []"
  by (simp add: Process_def parseJobDocument_def validate_def string_field_def
        exampleExecutioner_def)

subsection \<open>C2: reporting after a terminal report\<close>

text \<open>
  Claim C2 as stated fails: on the sample record a first \<^verbatim>\<open>Success\<close> completes (it
  returns nil, one status update published), and a second \<^verbatim>\<open>Success\<close> on the record it
  leaves publishes a second status update.
\<close>

theorem second_Success_publishes_again:
  "fst (Success [(''step'', JStr ''committed'')] ackToken exampleExecution) = Returned None
   \<and> length (statusPublishes
        (snd (Success [(''step'', JStr ''committed'')] ackToken exampleExecution))) = 1
   \<and> length (statusPublishes
        (snd (Success [(''step'', JStr ''committed'')] ackToken
           (snd (Success [(''step'', JStr ''committed'')] ackToken exampleExecution))))) = 2"
  by (simp add: Success_def sendUpdate_def unsubscribeFromUpdates_def jeIotCall_def iotCall_def
        exampleExecution_def ackToken_def statusPublishes_def requests_def)

text \<open>
  Claim C2, amended. The record keeps no trace of a terminal report: on every record bound
  to a connected client, whatever was reported on it before, each call of \<^verbatim>\<open>Success\<close>,
  \<^verbatim>\<open>Fail\<close> or \<^verbatim>\<open>Reject\<close> publishes exactly one more status update.
\<close>

theorem terminal_reports_always_publish:
  assumes "client je = Some cl" and "Iot cl = Some cs"
  shows "length (statusPublishes (snd (Success d tok je))) = length (statusPublishes je) + 1
       \<and> length (statusPublishes (snd (Fail err tok je))) = length (statusPublishes je) + 1
       \<and> length (statusPublishes (snd (Reject err tok je))) = length (statusPublishes je) + 1"
  using assms
  by (simp add: Success_statusPublishes Fail_statusPublishes Reject_statusPublishes)

theorem terminal_reports_always_publish_witness:
  "client exampleExecution =
     Some \<lparr> Iot = Some [MqttSubscribe ''$aws/things/rpi/jobs/+/update/accepted'' 0
                           updateHandlerRef],
            config = exampleConfig \<rparr>
   \<and> length (statusPublishes
        (snd (Success [(''step'', JStr ''committed'')] ackToken exampleExecution))) = 1
   \<and> length (statusPublishes
        (snd (Fail \<lparr>ErrCode = ''E'', ErrMessage = ''m''\<rparr> ackToken exampleExecution))) = 1
   \<and> length (statusPublishes
        (snd (Reject \<lparr>ErrCode = ''E'', ErrMessage = ''m''\<rparr> ackToken exampleExecution))) = 1"
proof -
  have z: "statusPublishes exampleExecution = []"
    by (simp add: statusPublishes_def requests_def exampleExecution_def)
  show ?thesis
    using exampleExecution_client z
      terminal_reports_always_publish[OF exampleExecution_client exampleExecution_Iot,
        of "[(''step'', JStr ''committed'')]" ackToken "\<lparr>ErrCode = ''E'', ErrMessage = ''m''\<rparr>"]
    by simp
qed

subsection \<open>C3: a publish that is not acknowledged in time\<close>

text \<open>
  Claim C3 as stated fails: when the publish is not acknowledged within the wait
  (\<^verbatim>\<open>WaitTimeout\<close> answers false), \<^verbatim>\<open>InProgress\<close> returns nil.
\<close>

theorem InProgress_unacknowledged_returns_nil:
  "fst (InProgress [(''step'', JStr ''installing'')] lateToken exampleExecution) = Returned None"
  by (simp add: InProgress_def sendUpdate_def jeIotCall_def iotCall_def
        exampleExecution_def lateToken_def)

text \<open>
  Claim C3, amended. On a record bound to a connected client, \<^verbatim>\<open>InProgress\<close> publishes
  exactly once (it does not retry) and returns the token's error when the publish completed
  within the bounded wait; when the publish did not complete within the wait it returns nil.
\<close>

theorem InProgress_result:
  assumes "client je = Some cl" and "Iot cl = Some cs"
  shows "fst (InProgress d tok je) =
           Returned (if WaitTimeout tok then map_option OtherErr (TokenError tok) else None)
       \<and> length (filter isPublish (requests (snd (InProgress d tok je)))) =
           length (filter isPublish (requests je)) + 1"
  using assms by (simp add: InProgress_def sendUpdate_bound requests_def)

theorem InProgress_result_witness:
  "fst (InProgress [(''step'', JStr ''installing'')]
          \<lparr>WaitTimeout = True, TokenError = Some ''connection lost''\<rparr> exampleExecution) =
     Returned (Some (OtherErr ''connection lost''))
   \<and> length (filter isPublish (requests (snd (InProgress [(''step'', JStr ''installing'')]
          \<lparr>WaitTimeout = True, TokenError = Some ''connection lost''\<rparr> exampleExecution)))) = 1"
proof -
  have z: "filter isPublish (requests exampleExecution) = []"
    by (simp add: requests_def exampleExecution_def)
  show ?thesis
    using z InProgress_result[OF exampleExecution_client exampleExecution_Iot,
        of "[(''step'', JStr ''installing'')]"
           "\<lparr>WaitTimeout = True, TokenError = Some ''connection lost''\<rparr>"]
    by simp
qed

subsection \<open>C4: the persisted step selects the updater's method\<close>

text \<open>
  Claim C4. For every job with operation install, whatever the updater and the timing: with
  the persisted step \<^verbatim>\<open>"rebooting"\<close>, executing the job calls \<^verbatim>\<open>Commit\<close> and never
  \<^verbatim>\<open>Install\<close>; with the persisted step \<^verbatim>\<open>""\<close>, it calls \<^verbatim>\<open>Install\<close> with the job's url
  and never \<^verbatim>\<open>Commit\<close>.
\<close>

theorem exec_install_chooses_Commit_or_Install:
  assumes "Operation j = ''mender_install''"
  shows "(Step (menderState j) = ''rebooting'' \<longrightarrow>
            CallCommit \<in> set (execCalls e t j) \<and> (\<forall>u. CallInstall u \<notin> set (execCalls e t j)))
       \<and> (Step (menderState j) = [] \<longrightarrow>
            CallInstall (URL j) \<in> set (execCalls e t j) \<and> CallCommit \<notin> set (execCalls e t j))"
proof (intro conjI impI allI)
  assume r: "Step (menderState j) = ''rebooting''"
  have f: "filter isUpdaterCall (execCalls e t j) = [CallCommit]"
    by (rule exec_rebooting_updaterCalls[OF assms r])
  have "CallCommit \<in> set (filter isUpdaterCall (execCalls e t j))" by (simp add: f)
  then show "CallCommit \<in> set (execCalls e t j)" by simp
  fix u
  have "CallInstall u \<notin> set (filter isUpdaterCall (execCalls e t j))" by (simp add: f)
  then show "CallInstall u \<notin> set (execCalls e t j)" by simp
next
  assume r: "Step (menderState j) = []"
  then have n: "Step (menderState j) \<noteq> ''rebooting''" by simp
  have f: "filter isUpdaterCall (execCalls e t j) = [CallInstall (URL j)]"
    by (rule exec_install_updaterCalls[OF assms n])
  have "CallInstall (URL j) \<in> set (filter isUpdaterCall (execCalls e t j))" by (simp add: f)
  then show "CallInstall (URL j) \<in> set (execCalls e t j)" by simp
  have "CallCommit \<notin> set (filter isUpdaterCall (execCalls e t j))" by (simp add: f)
  then show "CallCommit \<notin> set (execCalls e t j)" by simp
qed

theorem exec_install_chooses_Commit_or_Install_witness:
  "Operation (exampleJob ''rebooting'') = ''mender_install''
   \<and> Step (menderState (exampleJob ''rebooting'')) = ''rebooting''
   \<and> CallCommit \<in> set (execCalls (exampleEnv slowInstall) timeout (exampleJob ''rebooting''))
   \<and> CallInstall ''https://x/fw.pkg''
        \<notin> set (execCalls (exampleEnv slowInstall) timeout (exampleJob ''rebooting''))
   \<and> Operation (exampleJob []) = ''mender_install''
   \<and> Step (menderState (exampleJob [])) = []
   \<and> CallInstall ''https://x/fw.pkg''
        \<in> set (execCalls (exampleEnv slowInstall) timeout (exampleJob []))
   \<and> CallCommit \<notin> set (execCalls (exampleEnv slowInstall) timeout (exampleJob []))"
proof -
  have h1: "Operation (exampleJob ''rebooting'') = ''mender_install''"
    by (simp add: exampleJob_def)
  have h2: "Step (menderState (exampleJob ''rebooting'')) = ''rebooting''"
    by (simp add: exampleJob_def)
  have h3: "Operation (exampleJob []) = ''mender_install''" by (simp add: exampleJob_def)
  have h4: "Step (menderState (exampleJob [])) = []" by (simp add: exampleJob_def)
  have u: "URL (exampleJob []) = ''https://x/fw.pkg''" by (simp add: exampleJob_def)
  show ?thesis
    using h1 h2 h3 h4 u
      exec_install_chooses_Commit_or_Install[OF h1, of "exampleEnv slowInstall" timeout]
      exec_install_chooses_Commit_or_Install[OF h3, of "exampleEnv slowInstall" timeout]
    by simp
qed

subsection \<open>C5: the installation and the timer\<close>

text \<open>
  Claim C5 as stated fails. The sample installation prints a line after six minutes and
  hands over its result twelve minutes after the start, past the configured ten minutes;
  the timer is started anew at each wait, so it never fires: the job reports the step
  \<^verbatim>\<open>rebooting\<close> and \<^verbatim>\<open>Fail\<close> is not called at all.
\<close>

theorem install_past_deadline_without_Fail:
  "completionTime (InstallEvents (cmd (exampleEnv slowInstall))) = Some 720000000000
   \<and> timeout \<le> 720000000000
   \<and> filter isStatusReport (execCalls (exampleEnv slowInstall) timeout (exampleJob [])) =
       [CallInProgress [(''step'', JStr ''installing'')],
        CallInProgress [(''step'', JStr ''rebooting'')]]"
  by (simp add: slowInstall_def exampleEnv_def exampleJob_def execCalls_def exec_def
        timeout_def Minute_def Second_def onDone_def calls_reboot calls_progress
        calls_reportProgress calls_called)

text \<open>
  Claim C5, amended. The configured time bounds each wait of the loop, not the whole
  installation. For every install execution (persisted step other than \<^verbatim>\<open>"rebooting"\<close>)
  in which the installation first prints lines that each arrive within the configured time
  of the wait they end, and then lets a whole wait pass without a line or a result (it has
  nothing more to send, or its next event, of any kind, comes too late): \<^verbatim>\<open>exec\<close>
  returns the error \<^verbatim>\<open>ERR_MENDER_INSTALL_TIMEOUT\<close>, and its status reports are the step
  \<^verbatim>\<open>installing\<close> followed by exactly one \<^verbatim>\<open>Fail\<close> with that code. Whatever the
  installation sends from the late event on changes nothing, so a result it emits later
  triggers no further report.
\<close>

theorem exec_install_timeout_fails_once:
  assumes "Operation j = ''mender_install''" and "Step (menderState j) \<noteq> ''rebooting''"
      and "InstallEvents (cmd e) = pre @ rest"
      and "list_all (\<lambda>ev. isProgressLine ev \<and> arrivesBefore t ev) pre"
      and "silentFrom t rest"
  shows "fst (exec e t \<lparr>job = j, calls = []\<rparr>) =
           Some (JobErr \<lparr>ErrCode = ''ERR_MENDER_INSTALL_TIMEOUT'', ErrMessage = ''mender timed out''\<rparr>)
       \<and> filter isStatusReport (execCalls e t j) =
           [CallInProgress [(''step'', JStr ''installing'')],
            CallFail \<lparr>ErrCode = ''ERR_MENDER_INSTALL_TIMEOUT'', ErrMessage = ''mender timed out''\<rparr>]"
  using assms(1,2,3) installLoop_progress_then_silent[OF assms(4,5), of e
          "called (CallInstall (URL j)) (progress ''installing'' \<lparr>job = j, calls = []\<rparr>)"]
  by (simp add: execCalls_def exec_def calls_called calls_progress)

theorem exec_install_timeout_fails_once_witness:
  "Operation (exampleJob []) = ''mender_install''
   \<and> Step (menderState (exampleJob [])) \<noteq> ''rebooting''
   \<and> InstallEvents (cmd (exampleEnv hangingInstall)) =
        [ProgressLine 1000000000 ''5%''] @ [Done 900000000000 None]
   \<and> list_all (\<lambda>ev. isProgressLine ev \<and> arrivesBefore timeout ev) [ProgressLine 1000000000 ''5%'']
   \<and> silentFrom timeout [Done 900000000000 None]
   \<and> filter isStatusReport (execCalls (exampleEnv hangingInstall) timeout (exampleJob [])) =
        [CallInProgress [(''step'', JStr ''installing'')],
         CallFail \<lparr>ErrCode = ''ERR_MENDER_INSTALL_TIMEOUT'', ErrMessage = ''mender timed out''\<rparr>]"
proof -
  have h1: "Operation (exampleJob []) = ''mender_install''" by (simp add: exampleJob_def)
  have h2: "Step (menderState (exampleJob [])) \<noteq> ''rebooting''" by (simp add: exampleJob_def)
  have h3: "InstallEvents (cmd (exampleEnv hangingInstall)) =
        [ProgressLine 1000000000 ''5%''] @ [Done 900000000000 None]"
    by (simp add: exampleEnv_def hangingInstall_def)
  have h4: "list_all (\<lambda>ev. isProgressLine ev \<and> arrivesBefore timeout ev)
              [ProgressLine 1000000000 ''5%'']"
    by (simp add: timeout_def Minute_def Second_def)
  have h5: "silentFrom timeout [Done 900000000000 None]"
    by (simp add: silentFrom_def timeout_def Minute_def Second_def)
  show ?thesis
    using h1 h2 h3 h4 h5 exec_install_timeout_fails_once[OF h1 h2 h3 h4 h5] by simp
qed

subsection \<open>C6: the echo resynchronizes the version\<close>

text \<open>
  Claim C6. On a record bound to a connected client whose version number is \<open>N\<close>: a status
  report publishes with \<^verbatim>\<open>expectedVersion\<close> \<open>N\<close>; when the echo handler then receives an
  accepted update carrying \<^verbatim>\<open>versionNumber\<close> \<open>N + 1\<close>, the next status report on the
  record, whichever it is, publishes with \<^verbatim>\<open>expectedVersion\<close> \<open>N + 1\<close>.
\<close>

theorem echo_resynchronizes_version:
  assumes bound: "client je = Some cl" "Iot cl = Some cs"
      and N: "VersionNumber je = N"
      and echo: "es_VersionNumber (ExecutionState pl) = N + 1"
  shows "expectedVersions (snd (perform r2 tok2 (updateHandler pl (snd (perform r1 tok1 je))))) =
           expectedVersions je @ [N, N + 1]"
proof -
  let ?s1 = "snd (perform r1 tok1 je)"
  let ?s2 = "updateHandler pl ?s1"
  obtain cl' cs' where c1: "client ?s1 = Some cl'" and i2: "Iot cl' = Some cs'"
    using perform_bound[OF bound] by blast
  have c2: "client ?s2 = Some cl'"
    using c1 by (simp add: updateHandler_client)
  have "expectedVersions (snd (perform r2 tok2 ?s2)) = expectedVersions ?s2 @ [VersionNumber ?s2]"
    by (rule perform_expectedVersions[OF c2 i2])
  also have "expectedVersions ?s2 = expectedVersions je @ [N]"
    using perform_expectedVersions[OF bound, of r1 tok1] N
    by (simp add: updateHandler_expectedVersions)
  also have "VersionNumber ?s2 = N + 1"
    using echo by (simp add: updateHandler_VersionNumber)
  finally show ?thesis by simp
qed

theorem echo_resynchronizes_version_witness:
  "VersionNumber exampleExecution = 2
   \<and> es_VersionNumber (ExecutionState exampleEcho) = 2 + 1
   \<and> expectedVersions
       (snd (perform (ReportInProgress [(''step'', JStr ''rebooting'')]) ackToken
          (updateHandler exampleEcho
             (snd (perform (ReportInProgress [(''step'', JStr ''installing'')]) ackToken
                     exampleExecution))))) = [2, 3]"
proof -
  have n: "VersionNumber exampleExecution = 2" by (simp add: exampleExecution_def)
  have e: "es_VersionNumber (ExecutionState exampleEcho) = 2 + 1" by (simp add: exampleEcho_def)
  have v: "expectedVersions exampleExecution = []"
    by (simp add: expectedVersions_def requests_def exampleExecution_def List.map_filter_def)
  show ?thesis
    using n e v echo_resynchronizes_version
            [where ?r1.0 = "ReportInProgress [(''step'', JStr ''installing'')]"
               and ?r2.0 = "ReportInProgress [(''step'', JStr ''rebooting'')]"
               and ?tok1.0 = ackToken and ?tok2.0 = ackToken,
             OF exampleExecution_client exampleExecution_Iot n e]
    by simp
qed

subsection \<open>C7: a message without an execution\<close>

text \<open>
  Claim C7. For every incoming message whose payload has no \<^verbatim>\<open>"execution"\<close> field (a JSON
  object without the key, JSON that is not an object, or bytes that are not JSON), on every
  client: \<^verbatim>\<open>jobHandler\<close> returns without a panic, leaves the client as it was (nothing is
  subscribed or published), and does not start the configured handler, so that no method of
  the updater is reached.
\<close>

theorem jobHandler_ignores_non_job:
  assumes "map_of (decodeDoc msg) ''execution'' = None"
  shows "jobHandler cl msg = (Returned (), cl, None)"
  using assms by (simp add: jobHandler_def parseJobMessage_def)

theorem jobHandler_ignores_non_job_witness:
  "map_of (decodeDoc exampleNonJob) ''execution'' = None
   \<and> jobHandler exampleClient exampleNonJob = (Returned (), exampleClient, None)"
proof -
  have h: "map_of (decodeDoc exampleNonJob) ''execution'' = None"
    by (simp add: decodeDoc_def exampleNonJob_def)
  show ?thesis using h jobHandler_ignores_non_job[OF h] by simp
qed

subsection \<open>C8: what Terminate releases\<close>

text \<open>
  Claim C8 as stated fails. The sample record's client has subscribed to the echo topic
  \<^verbatim>\<open>.../jobs/+/update/accepted\<close>; after \<^verbatim>\<open>Terminate\<close> the subscription is still there
  and no unsubscription from that topic has been requested.
\<close>

theorem Terminate_keeps_echo_subscription:
  "fst (Terminate exampleExecution) = Returned ()
   \<and> MqttSubscribe ''$aws/things/rpi/jobs/+/update/accepted'' 0 updateHandlerRef
        \<in> set (requests (snd (Terminate exampleExecution)))
   \<and> MqttUnsubscribe ''$aws/things/rpi/jobs/+/update/accepted''
        \<notin> set (requests (snd (Terminate exampleExecution)))"
  by (simp add: Terminate_def unsubscribe_def iotCall_def requests_def exampleExecution_def
        exampleConfig_def jobBaseTopic_def)

text \<open>
  Claim C8, amended. For every call to \<^verbatim>\<open>Terminate\<close> on a record bound to a connected
  client, the call returns and requests exactly five unsubscriptions, from the client's job
  topics \<^verbatim>\<open>notify-next\<close>, \<^verbatim>\<open>+/get/accepted\<close>, \<^verbatim>\<open>+/get/rejected\<close>,
  \<^verbatim>\<open>start-next/accepted\<close> and \<^verbatim>\<open>start-next/rejected\<close>; it publishes nothing, and it
  requests no unsubscription from the echo topic \<^verbatim>\<open>+/update/accepted\<close>.
\<close>

theorem Terminate_releases_job_topics:
  assumes "client je = Some cl" and "Iot cl = Some cs"
  shows "fst (Terminate je) = Returned ()
       \<and> requests (snd (Terminate je)) = requests je @
            [MqttUnsubscribe (jobBaseTopic (Config.ThingName (config cl)) ''notify-next''),
             MqttUnsubscribe (jobBaseTopic (Config.ThingName (config cl)) ''+/get/accepted''),
             MqttUnsubscribe (jobBaseTopic (Config.ThingName (config cl)) ''+/get/rejected''),
             MqttUnsubscribe (jobBaseTopic (Config.ThingName (config cl)) ''start-next/accepted''),
             MqttUnsubscribe (jobBaseTopic (Config.ThingName (config cl)) ''start-next/rejected'')]
       \<and> filter isPublish (requests (snd (Terminate je))) = filter isPublish (requests je)
       \<and> count_list (requests (snd (Terminate je)))
            (MqttUnsubscribe (jobBaseTopic (Config.ThingName (config cl)) ''+/update/accepted'')) =
         count_list (requests je)
            (MqttUnsubscribe (jobBaseTopic (Config.ThingName (config cl)) ''+/update/accepted''))"
  using assms
  by (simp add: Terminate_def unsubscribe_bound requests_def jobBaseTopic_def)

theorem Terminate_releases_job_topics_witness:
  "fst (Terminate exampleExecution) = Returned ()
   \<and> requests (snd (Terminate exampleExecution)) =
        [MqttSubscribe ''$aws/things/rpi/jobs/+/update/accepted'' 0 updateHandlerRef,
         MqttUnsubscribe ''$aws/things/rpi/jobs/notify-next'',
         MqttUnsubscribe ''$aws/things/rpi/jobs/+/get/accepted'',
         MqttUnsubscribe ''$aws/things/rpi/jobs/+/get/rejected'',
         MqttUnsubscribe ''$aws/things/rpi/jobs/start-next/accepted'',
         MqttUnsubscribe ''$aws/things/rpi/jobs/start-next/rejected'']"
proof -
  have r: "requests exampleExecution =
      [MqttSubscribe ''$aws/things/rpi/jobs/+/update/accepted'' 0 updateHandlerRef]"
    by (simp add: requests_def exampleExecution_def)
  show ?thesis
    using r Terminate_releases_job_topics[OF exampleExecution_client exampleExecution_Iot]
    by (simp add: exampleConfig_def jobBaseTopic_def)
qed

subsection \<open>C9: resuming after the reboot\<close>

text \<open>
  Claim C9. For every job with operation install and persisted step \<^verbatim>\<open>"rebooting"\<close>: when
  \<^verbatim>\<open>Commit\<close> succeeds, \<^verbatim>\<open>exec\<close> returns nil and its only status report is \<^verbatim>\<open>Success\<close>
  with step \<^verbatim>\<open>committed\<close>; when \<^verbatim>\<open>Commit\<close> fails, \<^verbatim>\<open>exec\<close> returns the error
  \<^verbatim>\<open>ERR_MENDER_COMMIT\<close> and its only status report is \<^verbatim>\<open>Fail\<close> with that code; in both
  cases \<^verbatim>\<open>Rollback\<close> is not called.
\<close>

theorem exec_resume_after_reboot:
  assumes "Operation j = ''mender_install''" and "Step (menderState j) = ''rebooting''"
  shows "(CommitResult (cmd e) = None \<longrightarrow>
            fst (exec e t \<lparr>job = j, calls = []\<rparr>) = None
          \<and> filter isStatusReport (execCalls e t j) = [CallSuccess [(''step'', JStr ''committed'')]])
       \<and> (CommitResult (cmd e) \<noteq> None \<longrightarrow>
            fst (exec e t \<lparr>job = j, calls = []\<rparr>) =
              Some (JobErr \<lparr>ErrCode = ''ERR_MENDER_COMMIT'', ErrMessage = ''error committing''\<rparr>)
          \<and> filter isStatusReport (execCalls e t j) =
              [CallFail \<lparr>ErrCode = ''ERR_MENDER_COMMIT'', ErrMessage = ''error committing''\<rparr>])
       \<and> CallRollback \<notin> set (execCalls e t j)"
  using assms
  by (auto simp add: execCalls_def exec_def calls_fail calls_success calls_called
        calls_reportProgress split: option.splits)

theorem exec_resume_after_reboot_witness:
  "Operation (exampleJob ''rebooting'') = ''mender_install''
   \<and> Step (menderState (exampleJob ''rebooting'')) = ''rebooting''
   \<and> CommitResult (cmd (exampleEnv [])) = None
   \<and> filter isStatusReport (execCalls (exampleEnv []) timeout (exampleJob ''rebooting'')) =
        [CallSuccess [(''step'', JStr ''committed'')]]
   \<and> CommitResult (cmd failingCommitEnv) \<noteq> None
   \<and> filter isStatusReport (execCalls failingCommitEnv timeout (exampleJob ''rebooting'')) =
        [CallFail \<lparr>ErrCode = ''ERR_MENDER_COMMIT'', ErrMessage = ''error committing''\<rparr>]
   \<and> CallRollback \<notin> set (execCalls failingCommitEnv timeout (exampleJob ''rebooting''))"
proof -
  have h1: "Operation (exampleJob ''rebooting'') = ''mender_install''"
    by (simp add: exampleJob_def)
  have h2: "Step (menderState (exampleJob ''rebooting'')) = ''rebooting''"
    by (simp add: exampleJob_def)
  have h3: "CommitResult (cmd (exampleEnv [])) = None" by (simp add: exampleEnv_def)
  have h4: "CommitResult (cmd failingCommitEnv) \<noteq> None" by (simp add: failingCommitEnv_def)
  show ?thesis
    using h1 h2 h3 h4
      exec_resume_after_reboot[OF h1 h2, of "exampleEnv []" timeout]
      exec_resume_after_reboot[OF h1 h2, of failingCommitEnv timeout]
    by simp
qed

subsection \<open>C10: Fail and Reject overwrite the status details\<close>

text \<open>
  Claim C10. For every call to \<^verbatim>\<open>Fail\<close> or \<^verbatim>\<open>Reject\<close>, on every record (bound or not,
  whatever the transport answers), the record's status details afterwards are the single
  entry \<^verbatim>\<open>"error"\<close> with the text \<^verbatim>\<open>code <ErrCode>, msg: <ErrMessage>\<close>; in particular
  they hold no \<^verbatim>\<open>"step"\<close> any more.
\<close>

theorem Fail_Reject_replace_statusDetails:
  "StatusDetails (snd (Fail err tok je)) =
     [(''error'', JStr (''code '' @ ErrCode err @ '', msg: '' @ ErrMessage err))]
   \<and> StatusDetails (snd (Reject err tok je)) =
     [(''error'', JStr (''code '' @ ErrCode err @ '', msg: '' @ ErrMessage err))]
   \<and> map_of (StatusDetails (snd (Fail err tok je))) ''step'' = None
   \<and> map_of (StatusDetails (snd (Reject err tok je))) ''step'' = None"
  by (simp add: Fail_def Reject_def Error_def sendUpdate_def unsubscribeFromUpdates_def
        jeIotCall_def iotCall_def split: option.splits prod.splits outcome.splits)

theorem Fail_Reject_replace_statusDetails_witness:
  "map_of (StatusDetails exampleExecution) ''step'' = Some (JStr ''rebooting'')
   \<and> StatusDetails (snd (Fail \<lparr>ErrCode = ''ERR_MENDER_COMMIT'', ErrMessage = ''error committing''\<rparr>
        ackToken exampleExecution)) =
       [(''error'', JStr ''code ERR_MENDER_COMMIT, msg: error committing'')]
   \<and> map_of (StatusDetails (snd (Reject
        \<lparr>ErrCode = ''ERR_MENDER_COMMIT'', ErrMessage = ''error committing''\<rparr>
        ackToken exampleExecution))) ''step'' = None"
proof -
  have s: "map_of (StatusDetails exampleExecution) ''step'' = Some (JStr ''rebooting'')"
    by (simp add: exampleExecution_def)
  show ?thesis
    using s Fail_Reject_replace_statusDetails
        [of "\<lparr>ErrCode = ''ERR_MENDER_COMMIT'', ErrMessage = ''error committing''\<rparr>"
            ackToken exampleExecution]
    by simp
qed

end
